theory Spec2Isabelle
  imports
    Complex_Main
    "HOL-Library.Char_ord"
    "HOL-Library.List_Lexorder"
    "HOL-Library.Product_Lexorder"
    "HOL-Library.Sublist"
    "HOL-Library.Monad_Syntax"
begin

section \<open>The sales dashboard: data model\<close>

text \<open>
  The program \<^verbatim>\<open>sales.py\<close> keeps one pandas DataFrame \<^verbatim>\<open>df\<close> of order rows. A row is
  a record with one field per column, in the order in which the columns are created.
  Python floats (\<^verbatim>\<open>Sales\<close>, \<^verbatim>\<open>Discount\<close>, \<^verbatim>\<open>Profit\<close>) are read as real numbers, so sums
  are exact; \<^verbatim>\<open>Quantity\<close> is a Python int. A date is (year, month, day) and the monthly
  period of \<^verbatim>\<open>YearMonth\<close> is (year, month). A DataFrame is the list of its rows, top to
  bottom; the row labels of the pandas index are read by no operation of the program and
  are left out.
\<close>

type_synonym date = "nat \<times> nat \<times> nat"
type_synonym period = "nat \<times> nat"

record order =
  order_id :: string
  order_date :: date
  customer_id :: string
  customer_name :: string
  region :: string
  category :: string
  sub_category :: string
  sales :: real
  quantity :: int
  discount :: real
  profit :: real
  payment_method :: string
  customer_segment :: string
  shipping_type :: string
  product_id :: string
  product_name :: string
  year_month :: period

type_synonym dataframe = "order list"

text \<open>The enumerations the generator draws the categorical columns from.\<close>

definition categories :: "string list" where
  "categories = [''Electronics'', ''Clothing'', ''Home & Kitchen'', ''Books'', ''Toys'', ''Sports'']"

definition regions :: "string list" where
  "regions = [''North'', ''South'', ''East'', ''West'']"

definition payment_methods :: "string list" where
  "payment_methods = [''Credit Card'', ''PayPal'', ''Bank Transfer'', ''Cash on Delivery'']"

definition customer_segments :: "string list" where
  "customer_segments = [''Consumer'', ''Corporate'', ''Home Office'']"

definition shipping_types :: "string list" where
  "shipping_types = [''Standard Class'', ''Second Class'', ''First Class'', ''Same Day'']"


section \<open>The sidebar filters\<close>

text \<open>
  \<^verbatim>\<open>apply_filters(df)\<close> reads four multiselect widgets and then narrows a copy of \<^verbatim>\<open>df\<close>.
  What the widgets return is the state of the sidebar, an input of the model: one list of
  chosen labels per dimension. A multiselect returns any sub-list of its options, the
  empty list included (the user removes the default \<^verbatim>\<open>'All'\<close>).
\<close>

record selection =
  selected_region :: "string list"
  selected_category :: "string list"
  selected_payment :: "string list"
  selected_segment :: "string list"

text \<open>\<^verbatim>\<open>['All'] + sorted(df[col].unique().tolist())\<close>\<close>

definition options :: "(order \<Rightarrow> string) \<Rightarrow> dataframe \<Rightarrow> string list" where
  "options col df = ''All'' # sort (remdups (map col df))"

text \<open>\<^verbatim>\<open>Series.isin(values)\<close>, row by row.\<close>

definition isin :: "string \<Rightarrow> string list \<Rightarrow> bool" where
  "isin v vals \<longleftrightarrow> v \<in> set vals"

text \<open>\<^verbatim>\<open>filtered_df[filtered_df[col].isin(selected)]\<close>: the rows whose mask is true, in order.\<close>

definition keep_isin :: "(order \<Rightarrow> string) \<Rightarrow> string list \<Rightarrow> dataframe \<Rightarrow> dataframe" where
  "keep_isin col selected filtered_df = filter (\<lambda>r. isin (col r) selected) filtered_df"

definition apply_filters :: "selection \<Rightarrow> dataframe \<Rightarrow> dataframe" where
  "apply_filters sel df =
    (let filtered_df = df;
         filtered_df = (if ''All'' \<notin> set (selected_region sel)
                        then keep_isin region (selected_region sel) filtered_df
                        else filtered_df);
         filtered_df = (if ''All'' \<notin> set (selected_category sel)
                        then keep_isin category (selected_category sel) filtered_df
                        else filtered_df);
         filtered_df = (if ''All'' \<notin> set (selected_payment sel)
                        then keep_isin payment_method (selected_payment sel) filtered_df
                        else filtered_df);
         filtered_df = (if ''All'' \<notin> set (selected_segment sel)
                        then keep_isin customer_segment (selected_segment sel) filtered_df
                        else filtered_df)
     in filtered_df)"

text \<open>A row with the given categorical and numeric values, used in the examples below.\<close>

definition row :: "string \<Rightarrow> string \<Rightarrow> string \<Rightarrow> string \<Rightarrow> string \<Rightarrow> real \<Rightarrow> int \<Rightarrow> real \<Rightarrow> order" where
  "row rg cat pay seg ship s q p =
    \<lparr>order_id = ''o'', order_date = (2025, 6, 15), customer_id = ''c'',
     customer_name = ''n'', region = rg, category = cat, sub_category = ''w'',
     sales = s, quantity = q, discount = 0, profit = p, payment_method = pay,
     customer_segment = seg, shipping_type = ship, product_id = ''p'',
     product_name = ''A B'', year_month = (2025, 6)\<rparr>"

text \<open>The three records of the specification's example: regions North, North, South with
  sales 10, 20, 5.\<close>

definition example_df :: dataframe where
  "example_df =
    [row ''North'' ''Books'' ''PayPal'' ''Consumer'' ''Same Day'' 10 1 2,
     row ''North'' ''Toys'' ''PayPal'' ''Corporate'' ''First Class'' 20 3 0,
     row ''South'' ''Books'' ''Credit Card'' ''Consumer'' ''First Class'' 5 2 4]"

definition all_selected :: selection where
  "all_selected = \<lparr>selected_region = [''All''], selected_category = [''All''],
                   selected_payment = [''All''], selected_segment = [''All'']\<rparr>"


text \<open>The four steps as one pass: a dimension constrains a row only when \<^verbatim>\<open>'All'\<close> is not
  among its chosen labels.\<close>

definition passes :: "selection \<Rightarrow> order \<Rightarrow> bool" where
  "passes sel r \<longleftrightarrow>
     (''All'' \<in> set (selected_region sel) \<or> region r \<in> set (selected_region sel)) \<and>
     (''All'' \<in> set (selected_category sel) \<or> category r \<in> set (selected_category sel)) \<and>
     (''All'' \<in> set (selected_payment sel) \<or> payment_method r \<in> set (selected_payment sel)) \<and>
     (''All'' \<in> set (selected_segment sel) \<or> customer_segment r \<in> set (selected_segment sel))"


section \<open>The filter on a store of frames\<close>

text \<open>
  pandas frames are mutable objects and \<^verbatim>\<open>df\<close> is a module-level global, so whether
  \<^verbatim>\<open>apply_filters\<close> changes its argument is a question about the objects, not the values.
  The store lists the frames that exist, a reference is a position in it. The two pandas
  operations the function uses both build a new frame: \<^verbatim>\<open>df.copy()\<close> and the boolean
  selection \<^verbatim>\<open>frame[mask]\<close>. A reference outside the store gives \<open>None\<close>.
\<close>

type_synonym store = "dataframe list"
type_synonym ref = nat

definition deref :: "store \<Rightarrow> ref \<Rightarrow> dataframe option" where
  "deref h p = (if p < length h then Some (h ! p) else None)"

definition alloc :: "store \<Rightarrow> dataframe \<Rightarrow> store \<times> ref" where
  "alloc h d = (h @ [d], length h)"

definition df_copy :: "store \<Rightarrow> ref \<Rightarrow> (store \<times> ref) option" where
  "df_copy h p = map_option (alloc h) (deref h p)"

definition df_getitem :: "(order \<Rightarrow> bool) \<Rightarrow> store \<Rightarrow> ref \<Rightarrow> (store \<times> ref) option" where
  "df_getitem msk h p = map_option (\<lambda>d. alloc h (filter msk d)) (deref h p)"

definition apply_filters_st :: "selection \<Rightarrow> store \<Rightarrow> ref \<Rightarrow> (store \<times> ref) option" where
  "apply_filters_st sel h df =
    do {
      (h, filtered_df) \<leftarrow> df_copy h df;
      (h, filtered_df) \<leftarrow>
        (if ''All'' \<notin> set (selected_region sel)
         then df_getitem (\<lambda>r. isin (region r) (selected_region sel)) h filtered_df
         else Some (h, filtered_df));
      (h, filtered_df) \<leftarrow>
        (if ''All'' \<notin> set (selected_category sel)
         then df_getitem (\<lambda>r. isin (category r) (selected_category sel)) h filtered_df
         else Some (h, filtered_df));
      (h, filtered_df) \<leftarrow>
        (if ''All'' \<notin> set (selected_payment sel)
         then df_getitem (\<lambda>r. isin (payment_method r) (selected_payment sel)) h filtered_df
         else Some (h, filtered_df));
      (h, filtered_df) \<leftarrow>
        (if ''All'' \<notin> set (selected_segment sel)
         then df_getitem (\<lambda>r. isin (customer_segment r) (selected_segment sel)) h filtered_df
         else Some (h, filtered_df));
      Some (h, filtered_df)
    }"


section \<open>The KPIs\<close>

text \<open>
  \<^verbatim>\<open>Series.mean()\<close> of an empty series is NaN, where HOL's \<open>0 / 0\<close> is \<open>0\<close>; the result
  type of a mean therefore carries NaN as a value of its own.
\<close>

datatype pyfloat = Float real | NaN

definition series_sum :: "real list \<Rightarrow> real" where
  "series_sum xs = sum_list xs"

definition series_mean :: "real list \<Rightarrow> pyfloat" where
  "series_mean xs = (if xs = [] then NaN else Float (sum_list xs / real (length xs)))"

record kpis =
  total_sales :: real
  average_profit :: pyfloat
  average_quantity :: pyfloat
  total_orders :: nat

definition calculate_kpis :: "dataframe \<Rightarrow> kpis" where
  "calculate_kpis df =
    (if length df = 0
     then \<lparr>total_sales = 0, average_profit = Float 0, average_quantity = Float 0,
           total_orders = 0\<rparr>
     else \<lparr>total_sales = series_sum (map sales df),
           average_profit = series_mean (map profit df),
           average_quantity = series_mean (map (\<lambda>r. real_of_int (quantity r)) df),
           total_orders = length df\<rparr>)"


section \<open>The aggregations behind the charts\<close>


definition groupby_size :: "(order \<Rightarrow> 'k::linorder) \<Rightarrow> dataframe \<Rightarrow> ('k \<times> nat) list" where
  "groupby_size key df =
    map (\<lambda>k. (k, length (filter (\<lambda>r. key r = k) df))) (sort (remdups (map key df)))"



text \<open>
  \<^verbatim>\<open>unstack(fill_value=0)\<close> turns a series keyed by pairs into a table: the row labels are
  the first components that occur among the keys, the column labels the second components
  that occur, both sorted, and a cell whose pair is no key of the series holds
  \<^verbatim>\<open>fill_value\<close>.
\<close>

record grid =
  grid_index :: "string list"
  grid_columns :: "string list"
  grid_values :: "nat list list"

definition unstack :: "nat \<Rightarrow> ((string \<times> string) \<times> nat) list \<Rightarrow> grid" where
  "unstack fill_value s =
    (let idx = sort (remdups (map (\<lambda>kv. fst (fst kv)) s));
         cols = sort (remdups (map (\<lambda>kv. snd (fst kv)) s))
     in \<lparr>grid_index = idx, grid_columns = cols,
         grid_values =
           map (\<lambda>i. map (\<lambda>c. case map_of s (i, c) of Some n \<Rightarrow> n | None \<Rightarrow> fill_value) cols) idx\<rparr>)"

text \<open>Plot 8:
  \<^verbatim>\<open>df.groupby(['Customer Segment', 'Shipping Type']).size().unstack(fill_value=0)\<close>\<close>

definition order_counts :: "dataframe \<Rightarrow> grid" where
  "order_counts df = unstack 0 (groupby_size (\<lambda>r. (customer_segment r, shipping_type r)) df)"

text \<open>\<^verbatim>\<open>DataFrame.size\<close>: the number of cells.\<close>

definition grid_size :: "grid \<Rightarrow> nat" where
  "grid_size g = sum_list (map length (grid_values g))"


text \<open>A sidebar state in which every dimension has \<^verbatim>\<open>'All'\<close> next to another label.\<close>

definition mixed_selected :: selection where
  "mixed_selected =
    \<lparr>selected_region = [''All'', ''North''], selected_category = [''Toys'', ''All''],
     selected_payment = [''All'', ''Cash on Delivery''],
     selected_segment = [''Corporate'', ''All'']\<rparr>"


section \<open>Properties of the filter\<close>

lemma keep_isin_filter: "keep_isin col vs df = filter (\<lambda>r. col r \<in> set vs) df"
  by (simp add: keep_isin_def isin_def)

lemma apply_filters_filter: "apply_filters sel df = filter (passes sel) df"
  unfolding apply_filters_def Let_def keep_isin_filter passes_def
  by (auto intro: filter_cong)

lemma filter_passes_empty:
  assumes "selected_region sel = [] \<or> selected_category sel = [] \<or>
           selected_payment sel = [] \<or> selected_segment sel = []"
  shows "\<not> passes sel r"
  using assms by (auto simp: passes_def)

text \<open>
  Claim C1 says that an empty selection for a dimension behaves like \<^verbatim>\<open>'All'\<close>. The code
  tests \<^verbatim>\<open>'All' not in selected\<close>, which is true of the empty list, and then keeps the rows
  whose value is in the empty list: none. On the three example rows an empty region
  selection and the \<^verbatim>\<open>'All'\<close> selection give different frames.
\<close>

theorem empty_selection_not_all_counterexample:
  "apply_filters (all_selected\<lparr>selected_region := []\<rparr>) example_df
     \<noteq> apply_filters all_selected example_df"
  by code_simp

text \<open>
  Claim C1, as the code has it: when the selection of at least one of the four dimensions
  is empty, \<^verbatim>\<open>apply_filters\<close> returns a frame without rows, whatever the input and the
  other selections are.
\<close>

theorem empty_selection_removes_all_rows:
  assumes "selected_region sel = [] \<or> selected_category sel = [] \<or>
           selected_payment sel = [] \<or> selected_segment sel = []"
  shows "apply_filters sel df = []"
  using assms by (simp add: apply_filters_filter filter_passes_empty)

theorem empty_selection_removes_all_rows_witness:
  "apply_filters (all_selected\<lparr>selected_category := []\<rparr>) example_df = [] \<and> example_df \<noteq> []"
  using empty_selection_removes_all_rows [of "all_selected\<lparr>selected_category := []\<rparr>" example_df]
  by (simp add: example_df_def)

text \<open>
  Claim C6: for every frame and every selection the result of \<^verbatim>\<open>apply_filters\<close> is made
  of rows of the input, in the input's order, so it is a subset of the input and has at
  most as many rows.
\<close>

theorem apply_filters_subset:
  "subseq (apply_filters sel df) df \<and> set (apply_filters sel df) \<subseteq> set df \<and>
   length (apply_filters sel df) \<le> length df"
  by (simp add: apply_filters_filter)

text \<open>
  Claim C7: \<^verbatim>\<open>apply_filters\<close> is idempotent; filtering an already filtered frame with the
  same selection changes nothing.
\<close>

theorem apply_filters_idempotent:
  "apply_filters sel (apply_filters sel df) = apply_filters sel df"
  by (simp add: apply_filters_filter)

text \<open>
  Claim C8 says that \<^verbatim>\<open>'All'\<close> or an empty selection in every dimension returns the input
  unchanged. With four empty selections the three example rows are all removed.
\<close>

theorem empty_everywhere_counterexample:
  "apply_filters \<lparr>selected_region = [], selected_category = [], selected_payment = [],
                   selected_segment = []\<rparr> example_df \<noteq> example_df"
  by code_simp

text \<open>
  Claim C8, as the code has it: when \<^verbatim>\<open>'All'\<close> is among the chosen labels of each of the
  four dimensions, \<^verbatim>\<open>apply_filters\<close> returns the input frame unchanged, same rows in the
  same order.
\<close>

theorem all_everywhere_returns_input:
  assumes "''All'' \<in> set (selected_region sel)" and "''All'' \<in> set (selected_category sel)"
    and "''All'' \<in> set (selected_payment sel)" and "''All'' \<in> set (selected_segment sel)"
  shows "apply_filters sel df = df"
  using assms by (simp add: apply_filters_def)

theorem all_everywhere_returns_input_witness:
  "apply_filters all_selected example_df = example_df"
  using all_everywhere_returns_input [of all_selected example_df]
  by (simp add: all_selected_def)

text \<open>
  Claim C10: a dimension whose selection contains \<^verbatim>\<open>'All'\<close> constrains nothing, also when
  other labels are chosen beside it, and those labels are ignored (the result is the one
  for the selection \<^verbatim>\<open>['All']\<close>); a dimension filters by its chosen labels only when
  \<^verbatim>\<open>'All'\<close> is absent from it.
\<close>

theorem all_sentinel_overrides:
  "apply_filters sel df =
     filter (\<lambda>r. (''All'' \<in> set (selected_region sel) \<or> region r \<in> set (selected_region sel)) \<and>
                 (''All'' \<in> set (selected_category sel) \<or> category r \<in> set (selected_category sel)) \<and>
                 (''All'' \<in> set (selected_payment sel) \<or> payment_method r \<in> set (selected_payment sel)) \<and>
                 (''All'' \<in> set (selected_segment sel) \<or> customer_segment r \<in> set (selected_segment sel))) df
   \<and> (''All'' \<in> set (selected_region sel) \<longrightarrow>
        apply_filters sel df = apply_filters (sel\<lparr>selected_region := [''All'']\<rparr>) df)
   \<and> (''All'' \<in> set (selected_category sel) \<longrightarrow>
        apply_filters sel df = apply_filters (sel\<lparr>selected_category := [''All'']\<rparr>) df)
   \<and> (''All'' \<in> set (selected_payment sel) \<longrightarrow>
        apply_filters sel df = apply_filters (sel\<lparr>selected_payment := [''All'']\<rparr>) df)
   \<and> (''All'' \<in> set (selected_segment sel) \<longrightarrow>
        apply_filters sel df = apply_filters (sel\<lparr>selected_segment := [''All'']\<rparr>) df)"
proof -
  have "apply_filters sel df = filter (passes sel) df"
    by (rule apply_filters_filter)
  moreover have "passes (sel\<lparr>selected_region := [''All'']\<rparr>) = passes sel"
    if "''All'' \<in> set (selected_region sel)"
    using that by (auto simp: passes_def fun_eq_iff)
  moreover have "passes (sel\<lparr>selected_category := [''All'']\<rparr>) = passes sel"
    if "''All'' \<in> set (selected_category sel)"
    using that by (auto simp: passes_def fun_eq_iff)
  moreover have "passes (sel\<lparr>selected_payment := [''All'']\<rparr>) = passes sel"
    if "''All'' \<in> set (selected_payment sel)"
    using that by (auto simp: passes_def fun_eq_iff)
  moreover have "passes (sel\<lparr>selected_segment := [''All'']\<rparr>) = passes sel"
    if "''All'' \<in> set (selected_segment sel)"
    using that by (auto simp: passes_def fun_eq_iff)
  ultimately show ?thesis
    by (simp add: apply_filters_filter passes_def [abs_def])
qed

theorem all_sentinel_overrides_witness:
  "''All'' \<in> set (selected_region mixed_selected) \<and> ''All'' \<in> set (selected_category mixed_selected) \<and>
   ''All'' \<in> set (selected_payment mixed_selected) \<and> ''All'' \<in> set (selected_segment mixed_selected) \<and>
   apply_filters mixed_selected example_df = example_df \<and>
   apply_filters (mixed_selected\<lparr>selected_region := [''All'']\<rparr>) example_df = example_df \<and>
   apply_filters (mixed_selected\<lparr>selected_category := [''All'']\<rparr>) example_df = example_df \<and>
   apply_filters (mixed_selected\<lparr>selected_payment := [''All'']\<rparr>) example_df = example_df \<and>
   apply_filters (mixed_selected\<lparr>selected_segment := [''All'']\<rparr>) example_df = example_df"
proof -
  have m: "''All'' \<in> set (selected_region mixed_selected)"
    "''All'' \<in> set (selected_category mixed_selected)"
    "''All'' \<in> set (selected_payment mixed_selected)"
    "''All'' \<in> set (selected_segment mixed_selected)"
    by (simp_all add: mixed_selected_def)
  note t = all_sentinel_overrides [of mixed_selected example_df]
  from t m have "apply_filters mixed_selected example_df = example_df"
    by simp
  with t m show ?thesis
    by metis
qed


section \<open>The filter leaves its source alone\<close>

lemma deref_prefix: "prefix h h' \<Longrightarrow> a < length h \<Longrightarrow> deref h' a = deref h a"
  by (auto simp: deref_def prefix_def nth_append)

lemma df_copy_new:
  assumes "deref h p = Some d"
  shows "df_copy h p = Some (h @ [d], length h)"
  using assms by (simp add: df_copy_def alloc_def)

lemma deref_last: "deref (h @ [d]) (length h) = Some d"
  by (simp add: deref_def)

lemma filter_step_new:
  assumes "prefix h0 h" and "length h0 \<le> f" and "deref h f = Some d"
  shows "\<exists>h' f'. (if c then df_getitem m h f else Some (h, f)) = Some (h', f') \<and>
           prefix h0 h' \<and> length h0 \<le> f' \<and>
           deref h' f' = Some (if c then filter m d else d)"
proof (cases c)
  case True
  from assms(3) have "f < length h"
    by (simp add: deref_def split: if_splits)
  moreover from assms(1) have "prefix h0 (h @ [filter m d])"
    by (rule prefix_prefix)
  ultimately show ?thesis
    using assms True by (simp add: df_getitem_def alloc_def deref_last)
next
  case False
  with assms show ?thesis by simp
qed

text \<open>
  Claim C9: \<^verbatim>\<open>apply_filters\<close> returns a new frame and leaves the source alone. Run on a
  store in which \<^verbatim>\<open>df\<close> refers to a frame, it always returns; the frame \<^verbatim>\<open>df\<close> refers to
  and every other frame that existed before are the same afterwards; the returned
  reference is a new one, different from \<^verbatim>\<open>df\<close>, and holds the filtered rows.
\<close>

theorem apply_filters_leaves_source:
  assumes "deref h df = Some d"
  shows "\<exists>h' q. apply_filters_st sel h df = Some (h', q) \<and>
           deref h' df = Some d \<and> (\<forall>a<length h. deref h' a = deref h a) \<and>
           q \<noteq> df \<and> length h \<le> q \<and> deref h' q = Some (apply_filters sel d)"
proof -
  from assms have lt: "df < length h"
    by (simp add: deref_def split: if_splits)
  have c0: "df_copy h df = Some (h @ [d], length h)"
    using assms by (rule df_copy_new)
  have p0: "prefix h (h @ [d])" by simp
  from filter_step_new [OF p0 order_refl deref_last]
  obtain h1 f1 where s1:
    "(if ''All'' \<notin> set (selected_region sel)
      then df_getitem (\<lambda>r. isin (region r) (selected_region sel)) (h @ [d]) (length h)
      else Some (h @ [d], length h)) = Some (h1, f1)"
    and p1: "prefix h h1" and l1: "length h \<le> f1"
    and d1: "deref h1 f1 = Some (if ''All'' \<notin> set (selected_region sel)
               then filter (\<lambda>r. isin (region r) (selected_region sel)) d else d)"
    by blast
  from filter_step_new [OF p1 l1 d1]
  obtain h2 f2 where s2:
    "(if ''All'' \<notin> set (selected_category sel)
      then df_getitem (\<lambda>r. isin (category r) (selected_category sel)) h1 f1
      else Some (h1, f1)) = Some (h2, f2)"
    and p2: "prefix h h2" and l2: "length h \<le> f2"
    and d2: "deref h2 f2 = Some (if ''All'' \<notin> set (selected_category sel)
               then filter (\<lambda>r. isin (category r) (selected_category sel))
                      (if ''All'' \<notin> set (selected_region sel)
                       then filter (\<lambda>r. isin (region r) (selected_region sel)) d else d)
               else (if ''All'' \<notin> set (selected_region sel)
                     then filter (\<lambda>r. isin (region r) (selected_region sel)) d else d))"
    by blast
  from filter_step_new [OF p2 l2 d2]
  obtain h3 f3 where s3:
    "(if ''All'' \<notin> set (selected_payment sel)
      then df_getitem (\<lambda>r. isin (payment_method r) (selected_payment sel)) h2 f2
      else Some (h2, f2)) = Some (h3, f3)"
    and p3: "prefix h h3" and l3: "length h \<le> f3"
    and d3: "deref h3 f3 = Some (if ''All'' \<notin> set (selected_payment sel)
               then filter (\<lambda>r. isin (payment_method r) (selected_payment sel))
                (if ''All'' \<notin> set (selected_category sel)
                 then filter (\<lambda>r. isin (category r) (selected_category sel))
                      (if ''All'' \<notin> set (selected_region sel)
                       then filter (\<lambda>r. isin (region r) (selected_region sel)) d else d)
                 else (if ''All'' \<notin> set (selected_region sel)
                     then filter (\<lambda>r. isin (region r) (selected_region sel)) d else d))
               else (if ''All'' \<notin> set (selected_category sel)
                 then filter (\<lambda>r. isin (category r) (selected_category sel))
                      (if ''All'' \<notin> set (selected_region sel)
                       then filter (\<lambda>r. isin (region r) (selected_region sel)) d else d)
                 else (if ''All'' \<notin> set (selected_region sel)
                     then filter (\<lambda>r. isin (region r) (selected_region sel)) d else d)))"
    by blast
  from filter_step_new [OF p3 l3 d3, of "''All'' \<notin> set (selected_segment sel)"
      "\<lambda>r. isin (customer_segment r) (selected_segment sel)"]
  obtain h4 f4 where s4:
    "(if ''All'' \<notin> set (selected_segment sel)
      then df_getitem (\<lambda>r. isin (customer_segment r) (selected_segment sel)) h3 f3
      else Some (h3, f3)) = Some (h4, f4)"
    and p4: "prefix h h4" and l4: "length h \<le> f4"
    and d4: "deref h4 f4 = Some (apply_filters sel d)"
    unfolding apply_filters_def Let_def keep_isin_def by blast
  have run: "apply_filters_st sel h df = Some (h4, f4)"
    unfolding apply_filters_st_def by (simp only: c0 s1 s2 s3 s4 bind.bind_lunit prod.case)
  have "deref h4 a = deref h a" if "a < length h" for a
    using p4 that by (rule deref_prefix)
  with run assms lt l4 d4 show ?thesis
    by auto
qed

theorem apply_filters_leaves_source_witness:
  "deref [example_df] 0 = Some example_df \<and>
   (\<exists>h' q. apply_filters_st (all_selected\<lparr>selected_region := [''South'']\<rparr>) [example_df] 0 = Some (h', q) \<and>
      deref h' 0 = Some example_df \<and> q \<noteq> 0 \<and>
      deref h' q = Some (apply_filters (all_selected\<lparr>selected_region := [''South'']\<rparr>) example_df))"
proof -
  have d: "deref [example_df] 0 = Some example_df"
    by (simp add: deref_def)
  from apply_filters_leaves_source [OF d, of "all_selected\<lparr>selected_region := [''South'']\<rparr>"] d
  show ?thesis by auto
qed
section \<open>Properties of the KPIs and the aggregations\<close>

text \<open>
  Claim C4: on a frame without rows \<^verbatim>\<open>calculate_kpis\<close> returns zero for all four KPIs;
  no average is ever NaN; and on a frame with rows \<^verbatim>\<open>total_orders\<close> is the number of
  rows.
\<close>

theorem calculate_kpis_empty_and_count:
  "calculate_kpis [] = \<lparr>total_sales = 0, average_profit = Float 0, average_quantity = Float 0,
                         total_orders = 0\<rparr> \<and>
   average_profit (calculate_kpis df) \<noteq> NaN \<and> average_quantity (calculate_kpis df) \<noteq> NaN \<and>
   (df \<noteq> [] \<longrightarrow> total_orders (calculate_kpis df) = length df)"
  by (simp add: calculate_kpis_def series_mean_def)

theorem calculate_kpis_empty_and_count_witness:
  "example_df \<noteq> [] \<and> total_orders (calculate_kpis example_df) = 3"
  using calculate_kpis_empty_and_count [of example_df]
  by (simp add: example_df_def)






lemma map_of_keyed:
  "map_of (map (\<lambda>k. (k, f k)) ks) k = (if k \<in> set ks then Some (f k) else None)"
  by (induction ks) auto

lemma sort_remdups_unique:
  assumes "set xs = set ys"
  shows "sort (remdups xs) = sort (remdups (ys :: 'a::linorder list))"
  by (rule sorted_distinct_set_unique) (simp_all add: assms)

lemma unstack_index:
  "grid_index (order_counts df) = sort (remdups (map customer_segment df))"
proof -
  have "grid_index (order_counts df) =
        sort (remdups (map fst (sort (remdups (map (\<lambda>r. (customer_segment r, shipping_type r)) df)))))"
    by (simp add: order_counts_def unstack_def groupby_size_def Let_def comp_def)
  also have "\<dots> = sort (remdups (map customer_segment df))"
    by (rule sort_remdups_unique) (simp add: image_image)
  finally show ?thesis .
qed

lemma unstack_columns:
  "grid_columns (order_counts df) = sort (remdups (map shipping_type df))"
proof -
  have "grid_columns (order_counts df) =
        sort (remdups (map snd (sort (remdups (map (\<lambda>r. (customer_segment r, shipping_type r)) df)))))"
    by (simp add: order_counts_def unstack_def groupby_size_def Let_def comp_def)
  also have "\<dots> = sort (remdups (map shipping_type df))"
    by (rule sort_remdups_unique) (simp add: image_image)
  finally show ?thesis .
qed

lemma unstack_cell:
  "(case map_of (groupby_size (\<lambda>r. (customer_segment r, shipping_type r)) df) (i, c) of
      Some n \<Rightarrow> n | None \<Rightarrow> 0)
   = length (filter (\<lambda>r. customer_segment r = i \<and> shipping_type r = c) df)"
proof -
  have "length (filter (\<lambda>r. customer_segment r = i \<and> shipping_type r = c) df) = 0"
    if "(i, c) \<notin> (\<lambda>r. (customer_segment r, shipping_type r)) ` set df"
    using that by (auto simp: filter_empty_conv)
  then show ?thesis
    by (auto simp: groupby_size_def map_of_keyed)
qed

lemma unstack_values:
  "grid_values (order_counts df) =
     map (\<lambda>i. map (\<lambda>c. length (filter (\<lambda>r. customer_segment r = i \<and> shipping_type r = c) df))
                (grid_columns (order_counts df)))
         (grid_index (order_counts df))"
  by (simp add: order_counts_def unstack_def Let_def unstack_cell)

lemma sum_list_const: "sum_list (map (\<lambda>_. n) xs) = length xs * (n::nat)"
  by (induction xs) simp_all

text \<open>
  Claim C2, as the code has it: the table of plot 8 has one row per customer segment that
  occurs in the frame and one column per shipping type that occurs in it, both sorted.
  Each cell holds the number of rows with that segment and that shipping type, which is 0
  for a pair that does not occur together, and the table has as many cells as the product
  of the two numbers of occurring values. A segment or shipping type that does not occur
  in the frame has no row or column.
\<close>

theorem order_counts_grid:
  "grid_index (order_counts df) = sort (remdups (map customer_segment df)) \<and>
   grid_columns (order_counts df) = sort (remdups (map shipping_type df)) \<and>
   grid_values (order_counts df) =
     map (\<lambda>i. map (\<lambda>c. length (filter (\<lambda>r. customer_segment r = i \<and> shipping_type r = c) df))
                (grid_columns (order_counts df)))
         (grid_index (order_counts df)) \<and>
   grid_size (order_counts df) = card (customer_segment ` set df) * card (shipping_type ` set df)"
proof -
  have "grid_size (order_counts df) =
        length (grid_index (order_counts df)) * length (grid_columns (order_counts df))"
    unfolding grid_size_def by (subst unstack_values) (simp add: comp_def sum_list_const)
  also have "\<dots> = card (customer_segment ` set df) * card (shipping_type ` set df)"
    by (simp add: unstack_index unstack_columns length_remdups_card_conv)
  finally show ?thesis
    using unstack_index unstack_columns unstack_values by blast
qed

theorem order_counts_grid_witness:
  "grid_index (order_counts example_df) = [''Consumer'', ''Corporate''] \<and>
   grid_columns (order_counts example_df) = [''First Class'', ''Same Day''] \<and>
   grid_values (order_counts example_df) = [[1, 1], [1, 0]] \<and>
   grid_size (order_counts example_df) = 2 * 2"
proof -
  note t = order_counts_grid [of example_df]
  have i: "sort (remdups (map customer_segment example_df)) = [''Consumer'', ''Corporate'']"
    by code_simp
  have c: "sort (remdups (map shipping_type example_df)) = [''First Class'', ''Same Day'']"
    by code_simp
  have v: "map (\<lambda>i. map (\<lambda>c. length (filter (\<lambda>r. customer_segment r = i \<and> shipping_type r = c)
                                        example_df))
                    [''First Class'', ''Same Day''])
               [''Consumer'', ''Corporate''] = [[1, 1], [1, 0]]"
    by code_simp
  have n: "card (customer_segment ` set example_df) = 2"
    "card (shipping_type ` set example_df) = 2"
    by code_simp+
  from t i have gi: "grid_index (order_counts example_df) = [''Consumer'', ''Corporate'']"
    by (simp only:)
  from t c have gc: "grid_columns (order_counts example_df) = [''First Class'', ''Same Day'']"
    by (simp only:)
  from t have "grid_values (order_counts example_df) =
     map (\<lambda>i. map (\<lambda>c. length (filter (\<lambda>r. customer_segment r = i \<and> shipping_type r = c)
                                        example_df))
                (grid_columns (order_counts example_df)))
         (grid_index (order_counts example_df))"
    by (rule conjunct1 [OF conjunct2 [OF conjunct2]])
  then have gv: "grid_values (order_counts example_df) = [[1, 1], [1, 0]]"
    by (simp only: gi gc v)
  from t n have gs: "grid_size (order_counts example_df) = 2 * 2"
    by (simp only:)
  from gi gc gv gs show ?thesis
    by (simp only: simp_thms)
qed

text \<open>
  Claim C2 says that the table has one cell for every pair of the three customer segments
  and the four shipping types. On the three example rows, where only two segments and two
  shipping types occur, the table has 4 cells and not 12, and the segment
  \<^verbatim>\<open>'Home Office'\<close> has no row.
\<close>

theorem order_counts_full_grid_counterexample:
  "grid_size (order_counts example_df) \<noteq> length customer_segments * length shipping_types \<and>
   ''Home Office'' \<in> set customer_segments \<and>
   ''Home Office'' \<notin> set (grid_index (order_counts example_df))"
  by code_simp

end
